theory Spec2Isabelle
  imports Main
begin

section \<open>The chat input controller (ChatInputArea)\<close>

text \<open>
  A shallow embedding of the event handlers of the \<^verbatim>\<open>ChatInputArea\<close> component.
  A JavaScript string is a list of code units, here \<^typ>\<open>string\<close>; the React state of the
  component is a record, what the component reads from the chat context, its props and the
  router is a second record, and every handler returns the new local state together with the
  list of calls it makes on its collaborators, in program order.
\<close>

subsection \<open>JavaScript strings\<close>

definition truthy :: "string \<Rightarrow> bool" where
  "truthy t = (t \<noteq> [])"

fun truthy_opt :: "string option \<Rightarrow> bool" where
  "truthy_opt None = False"
| "truthy_opt (Some t) = truthy t"

text \<open>White space of \<^verbatim>\<open>String.prototype.trim\<close> among the code units below 256:
  TAB, LF, VT, FF, CR, SPACE and NBSP.\<close>

definition isWhiteSpace :: "char \<Rightarrow> bool" where
  "isWhiteSpace c = (c \<in> set [CHR 0x09, CHR 0x0A, CHR 0x0B, CHR 0x0C, CHR 0x0D, CHR 0x20, CHR 0xA0])"

definition trim :: "string \<Rightarrow> string" where
  "trim t = rev (dropWhile isWhiteSpace (rev (dropWhile isWhiteSpace t)))"

text \<open>\<^verbatim>\<open>t.substring(a, b)\<close> on indices that are already non-negative integers: both are
  clamped to the length and swapped when out of order. \<^verbatim>\<open>t.substring(a)\<close> runs to the end.\<close>

definition substring :: "string \<Rightarrow> nat \<Rightarrow> nat \<Rightarrow> string" where
  "substring t a b =
     (let a' = min a (length t); b' = min b (length t)
      in take (max a' b' - min a' b') (drop (min a' b') t))"

definition substring_from :: "string \<Rightarrow> nat \<Rightarrow> string" where
  "substring_from t a = drop (min a (length t)) t"

text \<open>\<^verbatim>\<open>t.lastIndexOf(c)\<close> for a single code unit: the greatest index holding it, or -1.\<close>

fun lastIndexOf :: "string \<Rightarrow> char \<Rightarrow> int" where
  "lastIndexOf [] c = -1"
| "lastIndexOf (x # xs) c =
     (let r = lastIndexOf xs c
      in if r \<noteq> -1 then r + 1 else if x = c then 0 else -1)"

text \<open>\<^verbatim>\<open>t.substring(0, i)\<close> where \<open>i\<close> may be -1: a negative index counts as 0.\<close>

definition substring_to :: "string \<Rightarrow> int \<Rightarrow> string" where
  "substring_to t i = substring t 0 (if i < 0 then 0 else nat i)"

definition includes_c :: "string \<Rightarrow> char \<Rightarrow> bool" where
  "includes_c t c = (c \<in> set t)"

text \<open>\<^verbatim>\<open>t[i]\<close>: the code unit at an index, \<^verbatim>\<open>undefined\<close> outside the string. The index is
  \<open>length - k\<close> with \<open>k\<close> positive, so it is below the length and may be negative.\<close>

definition charFromEnd :: "string \<Rightarrow> nat \<Rightarrow> char option" where
  "charFromEnd t k = (if 0 < k \<and> k \<le> length t then Some (t ! (length t - k)) else None)"

text \<open>A number in a template literal, for non-negative integers.\<close>

definition digit :: "nat \<Rightarrow> char" where
  "digit d = char_of (48 + d)"

function show_nat :: "nat \<Rightarrow> string" where
  "show_nat n = (if n < 10 then [digit n] else show_nat (n div 10) @ [digit (n mod 10)])"
  by pat_completeness auto
termination
  by (relation "measure id") auto

subsection \<open>Data\<close>

text \<open>A browser \<^verbatim>\<open>File\<close>: the three fields the duplicate filter compares, the MIME type and
  the content.\<close>

record File =
  name :: string
  size_f :: nat
  lastModified :: nat
  type_f :: string
  content :: string

record PastedArtifactItem =
  id_p :: string
  artifactId :: string
  filename :: string
  timestamp :: nat

record PromptGroup =
  id_g :: string
  name_g :: string
  prompt_text :: string

text \<open>The component's \<^verbatim>\<open>useState\<close> cells and the \<^verbatim>\<open>prevSessionIdRef\<close> ref.\<close>

record state =
  selectedFiles :: "File list"
  pastedArtifactItems :: "PastedArtifactItem list"
  pendingPasteContent :: "string option"
  showArtifactForm :: bool
  contextText :: "string option"
  inputValue :: string
  showPromptsCommand :: bool
  showVariableDialog :: bool
  pendingPromptGroup :: "PromptGroup option"
  sttError :: "string option"
  isRecording :: bool
  prevSessionIdRef :: "string option"

text \<open>The router state carried into the chat view.\<close>

record locationState =
  promptText :: string
  groupId :: string
  groupName :: string

text \<open>What the component reads and never writes itself: the chat context
  (\<^verbatim>\<open>isResponding\<close>, \<^verbatim>\<open>sessionId\<close>), the router location, and whether the optional
  \<^verbatim>\<open>scrollToBottom\<close> prop was given.\<close>

record chat_context =
  isResponding :: bool
  sessionId :: "string option"
  location_state :: "locationState option"
  location_pathname :: string
  has_scrollToBottom :: bool

datatype timer = FocusChatInput | AutoSubmit string string

datatype effect =
    PreventDefault
  | HandleSubmit "File list" string
  | ScrollToBottom
  | SetTimeout timer nat
  | ClearFileInput
  | UploadArtifactFile File "string option" "string option"
  | AddNotification string "string option"
  | ArtifactsRefetch
  | ConsoleError
  | SetSessionId string
  | NavigateReplace string
  | NavigateTo string string

text \<open>How an awaited call on the chat context ends: the promise resolves, or it rejects and
  the rest of the handler is skipped.\<close>

datatype outcome = Resolved | Rejected

definition scrollToBottom :: "chat_context \<Rightarrow> effect list" where
  "scrollToBottom ctx = (if has_scrollToBottom ctx then [ScrollToBottom] else [])"

subsection \<open>Submission\<close>

definition isSubmittingEnabled :: "chat_context \<Rightarrow> state \<Rightarrow> bool" where
  "isSubmittingEnabled ctx s =
     (\<not> isResponding ctx \<and> (truthy (trim (inputValue s)) \<or> length (selectedFiles s) \<noteq> 0))"

definition composeMessage :: "string \<Rightarrow> string \<Rightarrow> string" where
  "composeMessage msg ctxt = msg @ [CHR 0x0A, CHR 0x0A] @ ''Context: '' @ [CHR 0x22] @ ctxt @ [CHR 0x22]"

definition onSubmit :: "chat_context \<Rightarrow> state \<Rightarrow> outcome \<Rightarrow> state \<times> effect list" where
  "onSubmit ctx s out =
     (if isSubmittingEnabled ctx s then
        (let fullMessage = trim (inputValue s);
             fullMessage = (case contextText s of
                              Some c \<Rightarrow> if truthy c then composeMessage fullMessage c else fullMessage
                            | None \<Rightarrow> fullMessage);
             call = [PreventDefault, HandleSubmit (selectedFiles s) fullMessage]
         in case out of
              Rejected \<Rightarrow> (s, call)
            | Resolved \<Rightarrow>
                (s\<lparr>selectedFiles := [], pastedArtifactItems := [], inputValue := [],
                   contextText := None\<rparr>,
                 call @ scrollToBottom ctx))
      else (s, [PreventDefault]))"

subsection \<open>The Selected File Set\<close>

text \<open>The test of the duplicate filter: same name, size and last-modified time.\<close>

definition sameFile :: "File \<Rightarrow> File \<Rightarrow> bool" where
  "sameFile existingFile newFile =
     (name existingFile = name newFile \<and> size_f existingFile = size_f newFile
      \<and> lastModified existingFile = lastModified newFile)"

definition newFiles :: "File list \<Rightarrow> File list \<Rightarrow> File list" where
  "newFiles selected files =
     filter (\<lambda>newFile. \<not> list_ex (\<lambda>existingFile. sameFile existingFile newFile) selected) files"

text \<open>The three handlers that add files share these lines. The filter reads the selection of
  the render the handler closed over and the setter appends to the current one; a handler
  here runs on the latest render, so both are the same list.\<close>

definition addFiles :: "state \<Rightarrow> File list \<Rightarrow> state" where
  "addFiles s files =
     (let new = newFiles (selectedFiles s) files
      in if length new > 0 then s\<lparr>selectedFiles := selectedFiles s @ new\<rparr> else s)"

text \<open>The file picker's change event; \<^verbatim>\<open>event.target.files\<close> may be null.\<close>

definition handleFileChange :: "state \<Rightarrow> File list option \<Rightarrow> state \<times> effect list" where
  "handleFileChange s files =
     ((case files of None \<Rightarrow> s | Some fs \<Rightarrow> addFiles s fs),
      [ClearFileInput, SetTimeout FocusChatInput 100])"

definition handleFilesDropped :: "chat_context \<Rightarrow> state \<Rightarrow> File list \<Rightarrow> state" where
  "handleFilesDropped ctx s files = (if isResponding ctx then s else addFiles s files)"

subsection \<open>Paste\<close>

text \<open>The clipboard of a paste event: its files and what \<^verbatim>\<open>getData("text")\<close> returns
  (the empty string when it carries no text).\<close>

record ClipboardData =
  files :: "File list"
  text_data :: string

text \<open>
  Modelled from the spec: \<^verbatim>\<open>isLargeText\<close> of the paste module, which is not among the
  sources. The spec says that pasted text is classified by a size threshold and is large when
  at or above it; the threshold is a parameter here. The handler below takes the classifier
  as an argument, and this definition instantiates it at concrete inputs.
\<close>

definition isLargeText :: "nat \<Rightarrow> string \<Rightarrow> bool" where
  "isLargeText threshold t = (threshold \<le> length t)"

definition handlePaste ::
  "(string \<Rightarrow> bool) \<Rightarrow> chat_context \<Rightarrow> state \<Rightarrow> ClipboardData option \<Rightarrow> state \<times> effect list" where
  "handlePaste large ctx s clipboardData =
     (if isResponding ctx then (s, [])
      else case clipboardData of
        None \<Rightarrow> (s, [])
      | Some cd \<Rightarrow>
          if length (files cd) > 0 then (addFiles s (files cd), [PreventDefault])
          else
            (let pastedText = text_data cd
             in if truthy pastedText \<and> large pastedText
                then (s\<lparr>pendingPasteContent := Some pastedText, showArtifactForm := True\<rparr>,
                      [PreventDefault])
                else (s, [])))"

subsection \<open>Saving pasted text as an artifact\<close>

datatype thrown = ErrorObject string | NonError

text \<open>What \<^verbatim>\<open>await uploadArtifactFile(...)\<close> gives: it throws, it returns a falsy value, an
  object with an \<^verbatim>\<open>error\<close> key, or an object with \<^verbatim>\<open>uri\<close> and maybe \<^verbatim>\<open>sessionId\<close>.\<close>

datatype upload_result =
    UploadThrows thrown
  | UploadFalsy
  | UploadError string
  | UploadOk string "string option"

datatype refetch_result = RefetchDone | RefetchThrows thrown

text \<open>The \<^verbatim>\<open>File\<close> built from the pasted text has the size of its UTF-8 encoding, which is
  the length of the text when every code unit is below 128; no property here reads it.\<close>

text \<open>The surroundings of one run of the save handler: the clock at the three places that read
  it, the random part of the badge id, and how the two awaited calls end.\<close>

record save_env =
  fileNow :: nat
  idNow :: nat
  idRandom :: string
  stampNow :: nat
  uploadResult :: upload_result
  refetchResult :: refetch_result

definition catchError :: "thrown \<Rightarrow> effect list" where
  "catchError e =
     [ConsoleError,
      AddNotification (''Error creating artifact: ''
                        @ (case e of ErrorObject m \<Rightarrow> m | NonError \<Rightarrow> ''Unknown error''))
                      (Some ''error'')]"

definition handleSaveAsArtifact ::
  "chat_context \<Rightarrow> save_env \<Rightarrow> state \<Rightarrow> string \<Rightarrow> string \<Rightarrow> string option \<Rightarrow> state \<times> effect list" where
  "handleSaveAsArtifact ctx env s title fileType description =
     (case pendingPasteContent s of
        None \<Rightarrow> (s, [])
      | Some pending \<Rightarrow>
          if \<not> truthy pending then (s, [])
          else
            (let mimeType = (if fileType \<noteq> ''auto'' then fileType else ''text/plain'');
                 file = \<lparr>name = title, size_f = length pending, lastModified = fileNow env,
                         type_f = mimeType, content = pending\<rparr>;
                 upload = UploadArtifactFile file (sessionId ctx) description;
                 (s1, effs) =
                   (case uploadResult env of
                      UploadThrows e \<Rightarrow> (s, upload # catchError e)
                    | UploadFalsy \<Rightarrow>
                        (s, [upload,
                             AddNotification ''Failed to create artifact from pasted content.''
                               (Some ''error'')])
                    | UploadError msg \<Rightarrow>
                        (s, [upload,
                             AddNotification (''Failed to create artifact: '' @ msg) (Some ''error'')])
                    | UploadOk uri sid \<Rightarrow>
                        (let artifactItem =
                               \<lparr>id_p = ''paste-artifact-'' @ show_nat (idNow env) @ ''-'' @ idRandom env,
                                artifactId = uri, filename = title, timestamp = stampNow env\<rparr>;
                             s1 = s\<lparr>pastedArtifactItems := pastedArtifactItems s @ [artifactItem]\<rparr>;
                             effs = upload
                               # (case sid of
                                    None \<Rightarrow> []
                                  | Some i \<Rightarrow>
                                      if truthy i \<and> Some i \<noteq> sessionId ctx then [SetSessionId i] else [])
                               @ [AddNotification
                                    (''Artifact '' @ [CHR 0x22] @ title @ [CHR 0x22]
                                       @ '' created from pasted content.'') None,
                                  ArtifactsRefetch]
                         in case refetchResult env of
                              RefetchDone \<Rightarrow> (s1, effs)
                            | RefetchThrows e \<Rightarrow> (s1, effs @ catchError e)))
             in (s1\<lparr>pendingPasteContent := None, showArtifactForm := False\<rparr>, effs)))"

definition handleCancelArtifactForm :: "state \<Rightarrow> state" where
  "handleCancelArtifactForm s = s\<lparr>pendingPasteContent := None, showArtifactForm := False\<rparr>"

text \<open>A run fails when the upload throws or gives no usable result, or when the refresh that
  follows a good upload throws.\<close>

definition failing :: "save_env \<Rightarrow> bool" where
  "failing env =
     (case uploadResult env of
        UploadOk uri sid \<Rightarrow> refetchResult env \<noteq> RefetchDone
      | _ \<Rightarrow> True)"

definition errorNotifications :: "effect list \<Rightarrow> effect list" where
  "errorNotifications effs =
     filter (\<lambda>e. case e of AddNotification m ty \<Rightarrow> ty = Some ''error'' | _ \<Rightarrow> False) effs"

subsection \<open>The reaction to a change of session\<close>

text \<open>The router state holds a prompt when \<^verbatim>\<open>location.state?.promptText\<close> is truthy.\<close>

definition pendingPrompt :: "chat_context \<Rightarrow> locationState option" where
  "pendingPrompt ctx =
     (case location_state ctx of
        None \<Rightarrow> None
      | Some ls \<Rightarrow> if truthy (promptText ls) then Some ls else None)"

text \<open>One run of the effect. \<^verbatim>\<open>detectVariables\<close> belongs to the prompt utilities, which are not
  among the sources, and is an argument.\<close>

definition sessionEffect_run ::
  "(string \<Rightarrow> string list) \<Rightarrow> chat_context \<Rightarrow> state \<Rightarrow> state \<times> effect list" where
  "sessionEffect_run detectVariables ctx s =
     (case pendingPrompt ctx of
        Some ls \<Rightarrow>
          (let variables = detectVariables (promptText ls)
           in if length variables > 0
              then (s\<lparr>pendingPromptGroup :=
                         Some \<lparr>id_g = groupId ls, name_g = groupName ls, prompt_text = promptText ls\<rparr>,
                       showVariableDialog := True\<rparr>,
                    [NavigateReplace (location_pathname ctx)])
              else (s\<lparr>inputValue := promptText ls\<rparr>,
                    [SetTimeout FocusChatInput 100, NavigateReplace (location_pathname ctx)]))
      | None \<Rightarrow>
          (let s1 = (if truthy_opt (prevSessionIdRef s) \<and> prevSessionIdRef s \<noteq> sessionId ctx
                     then s\<lparr>inputValue := [], showPromptsCommand := False, pastedArtifactItems := []\<rparr>
                     else s)
           in (s1\<lparr>prevSessionIdRef := sessionId ctx, contextText := None\<rparr>, [])))"

text \<open>The effect depends on \<^verbatim>\<open>location.state\<close>: when a run has consumed a router prompt, its
  \<^verbatim>\<open>navigate(..., {replace: true, state: {}})\<close> empties the router state, and the effect runs
  once more on the state the first run left.\<close>

definition sessionEffect ::
  "(string \<Rightarrow> string list) \<Rightarrow> chat_context \<Rightarrow> state \<Rightarrow> state \<times> effect list" where
  "sessionEffect detectVariables ctx s =
     (let (s1, effs1) = sessionEffect_run detectVariables ctx s
      in if pendingPrompt ctx = None then (s1, effs1)
         else (let (s2, effs2) = sessionEffect_run detectVariables (ctx\<lparr>location_state := None\<rparr>) s1
               in (s2, effs1 @ effs2)))"

subsection \<open>The slash command\<close>

definition handleInputChange :: "state \<Rightarrow> string \<Rightarrow> nat \<Rightarrow> state" where
  "handleInputChange s value selectionStart =
     (let s1 = s\<lparr>inputValue := value\<rparr>;
          textBeforeCursor = substring value 0 selectionStart;
          lastChar = charFromEnd textBeforeCursor 1;
          charBeforeLast = charFromEnd textBeforeCursor 2
      in if lastChar = Some CHR ''/''
            \<and> (charBeforeLast = None \<or> charBeforeLast = Some CHR '' '' \<or> charBeforeLast = Some CHR 0x0A)
         then s1\<lparr>showPromptsCommand := True\<rparr>
         else if showPromptsCommand s \<and> \<not> includes_c textBeforeCursor CHR ''/''
         then s1\<lparr>showPromptsCommand := False\<rparr>
         else s1)"

text \<open>\<^verbatim>\<open>chatInputRef.current?.selectionStart || 0\<close>: no cursor when the ref is empty.\<close>

definition handlePromptSelect :: "state \<Rightarrow> nat option \<Rightarrow> string \<Rightarrow> state \<times> effect list" where
  "handlePromptSelect s selectionStart promptTxt =
     (let cursorPosition = (case selectionStart of None \<Rightarrow> 0 | Some n \<Rightarrow> n);
          textBeforeCursor = substring (inputValue s) 0 cursorPosition;
          textAfterCursor = substring_from (inputValue s) cursorPosition;
          lastSlashIndex = lastIndexOf textBeforeCursor CHR ''/'';
          newText = substring_to textBeforeCursor lastSlashIndex @ promptTxt @ textAfterCursor
      in (s\<lparr>inputValue := newText, showPromptsCommand := False\<rparr>,
          [SetTimeout FocusChatInput 100]))"

subsection \<open>The follow-up question\<close>

record followUp =
  text_f :: string
  prompt :: "string option"
  autoSubmit :: bool

definition handleFollowUp :: "state \<Rightarrow> followUp \<Rightarrow> state \<times> effect list" where
  "handleFollowUp s d =
     (let s1 = s\<lparr>contextText := Some (text_f d)\<rparr>
      in case prompt d of
           None \<Rightarrow> (s1, [SetTimeout FocusChatInput 100])
         | Some p \<Rightarrow>
             if truthy p then
               (let s2 = s1\<lparr>inputValue := p @ '' ''\<rparr>
                in if autoSubmit d then (s2, [SetTimeout (AutoSubmit p (text_f d)) 50])
                   else (s2, [SetTimeout FocusChatInput 100]))
             else (s1, [SetTimeout FocusChatInput 100]))"

text \<open>What a timer does when it fires, on the state and context of that moment. The focus
  timer touches the DOM only.\<close>

fun fire :: "chat_context \<Rightarrow> state \<Rightarrow> timer \<Rightarrow> outcome \<Rightarrow> state \<times> effect list" where
  "fire ctx s FocusChatInput out = (s, [])"
| "fire ctx s (AutoSubmit p t) out =
     (let fullMessage = composeMessage p t;
          call = [HandleSubmit [] fullMessage]
      in case out of
           Rejected \<Rightarrow> (s, call)
         | Resolved \<Rightarrow> (s\<lparr>contextText := None, inputValue := []\<rparr>, call @ scrollToBottom ctx))"

text \<open>The state at mount: the initial values of the \<^verbatim>\<open>useState\<close> cells, and the ref holding
  the session id of that moment.\<close>

definition initial :: "chat_context \<Rightarrow> state" where
  "initial ctx =
     \<lparr>selectedFiles = [], pastedArtifactItems = [], pendingPasteContent = None,
      showArtifactForm = False, contextText = None, inputValue = [],
      showPromptsCommand = False, showVariableDialog = False, pendingPromptGroup = None,
      sttError = None, isRecording = False, prevSessionIdRef = sessionId ctx\<rparr>"

subsection \<open>The remaining handlers\<close>

definition handleRemoveFile :: "state \<Rightarrow> nat \<Rightarrow> state" where
  "handleRemoveFile s index =
     s\<lparr>selectedFiles := map snd (filter (\<lambda>(i, f). i \<noteq> index) (enumerate 0 (selectedFiles s)))\<rparr>"

definition handleRemovePastedArtifact :: "state \<Rightarrow> string \<Rightarrow> state" where
  "handleRemovePastedArtifact s ident =
     s\<lparr>pastedArtifactItems := filter (\<lambda>item. id_p item \<noteq> ident) (pastedArtifactItems s)\<rparr>"

fun joinLines :: "string list \<Rightarrow> string" where
  "joinLines [] = []"
| "joinLines [l] = l"
| "joinLines (l # ls) = l @ [CHR 0x0A] @ joinLines ls"

definition createEnhancedMessage :: "string \<Rightarrow> string option \<Rightarrow> string" where
  "createEnhancedMessage command conversationContext =
     (if command = ''create-template'' then
        (case conversationContext of
           None \<Rightarrow> ''Help me create a new prompt template.''
         | Some c \<Rightarrow>
             if \<not> truthy c then ''Help me create a new prompt template.''
             else joinLines
               [''I want to create a reusable prompt template based on this conversation I just had:'',
                [],
                ''<conversation_history>'',
                c,
                ''</conversation_history>'',
                [],
                ''Please help me create a prompt template by:'',
                [],
                ''1. **Analyzing the Pattern**: Identify the core task/question pattern in this conversation'',
                ''2. **Extracting Variables**: Determine which parts should be variables (use {{variable_name}} syntax)'',
                ''3. **Generalizing**: Make it reusable for similar tasks'',
                ''4. **Suggesting Metadata**: Recommend a name, description, category, and chat shortcut'',
                [],
                ''Focus on capturing what made this conversation successful so it can be reused with different inputs.''])
      else [])"

definition handleChatCommand :: "state \<Rightarrow> string \<Rightarrow> string option \<Rightarrow> state \<times> effect list" where
  "handleChatCommand s command ctxt =
     (let enhancedMessage = createEnhancedMessage command ctxt
      in if command = ''create-template''
         then (s\<lparr>inputValue := [], showPromptsCommand := False\<rparr>,
               [NavigateTo ''/prompts/new?mode=ai-assisted'' enhancedMessage])
         else (s, []))"

definition handleVariableSubmit :: "state \<Rightarrow> string \<Rightarrow> state \<times> effect list" where
  "handleVariableSubmit s processedPrompt =
     (s\<lparr>inputValue := processedPrompt, showVariableDialog := False, pendingPromptGroup := None\<rparr>,
      [SetTimeout FocusChatInput 100])"

definition handleTranscription :: "state \<Rightarrow> string \<Rightarrow> state \<times> effect list" where
  "handleTranscription s t =
     (s\<lparr>inputValue := (if truthy (inputValue s) then inputValue s @ '' '' @ t else t)\<rparr>,
      [SetTimeout FocusChatInput 100])"

subsection \<open>Runs of the controller\<close>

text \<open>The events the component answers, one per handler and inline callback. Each arrives
  with the context of its moment, which the chat provider and the router change between
  events as they like.\<close>

datatype event =
    FileChange "File list option"
  | Paste "ClipboardData option"
  | FilesDropped "File list"
  | RemoveFile nat
  | SaveAsArtifact save_env string string "string option"
  | CancelArtifactForm
  | RemovePastedArtifact string
  | Submit outcome
  | SessionChange
  | InputChange string nat
  | PromptSelect "nat option" string
  | ClosePromptsCommand
  | ChatCommand string "string option"
  | VariableSubmit string
  | CloseVariableDialog
  | Transcription string
  | TranscriptionError string
  | DismissSttError
  | RecordingStateChange bool
  | FollowUp followUp
  | Fire timer outcome

fun step ::
  "(string \<Rightarrow> bool) \<Rightarrow> (string \<Rightarrow> string list) \<Rightarrow> state \<Rightarrow> chat_context \<times> event \<Rightarrow> state" where
  "step large dv s (ctx, FileChange fs) = fst (handleFileChange s fs)"
| "step large dv s (ctx, Paste cd) = fst (handlePaste large ctx s cd)"
| "step large dv s (ctx, FilesDropped fs) = handleFilesDropped ctx s fs"
| "step large dv s (ctx, RemoveFile i) = handleRemoveFile s i"
| "step large dv s (ctx, SaveAsArtifact env title fileType description) =
     fst (handleSaveAsArtifact ctx env s title fileType description)"
| "step large dv s (ctx, CancelArtifactForm) = handleCancelArtifactForm s"
| "step large dv s (ctx, RemovePastedArtifact i) = handleRemovePastedArtifact s i"
| "step large dv s (ctx, Submit out) = fst (onSubmit ctx s out)"
| "step large dv s (ctx, SessionChange) = fst (sessionEffect dv ctx s)"
| "step large dv s (ctx, InputChange v c) = handleInputChange s v c"
| "step large dv s (ctx, PromptSelect c p) = fst (handlePromptSelect s c p)"
| "step large dv s (ctx, ClosePromptsCommand) = s\<lparr>showPromptsCommand := False\<rparr>"
| "step large dv s (ctx, ChatCommand c x) = fst (handleChatCommand s c x)"
| "step large dv s (ctx, VariableSubmit p) = fst (handleVariableSubmit s p)"
| "step large dv s (ctx, CloseVariableDialog) =
     s\<lparr>showVariableDialog := False, pendingPromptGroup := None\<rparr>"
| "step large dv s (ctx, Transcription t) = fst (handleTranscription s t)"
| "step large dv s (ctx, TranscriptionError e) = s\<lparr>sttError := Some e\<rparr>"
| "step large dv s (ctx, DismissSttError) = s\<lparr>sttError := None\<rparr>"
| "step large dv s (ctx, RecordingStateChange b) = s\<lparr>isRecording := b\<rparr>"
| "step large dv s (ctx, FollowUp d) = fst (handleFollowUp s d)"
| "step large dv s (ctx, Fire t out) = fst (fire ctx s t out)"

text \<open>The state after a run of events from the mount in context \<open>ctx0\<close>.\<close>

definition run ::
  "(string \<Rightarrow> bool) \<Rightarrow> (string \<Rightarrow> string list) \<Rightarrow> chat_context
     \<Rightarrow> (chat_context \<times> event) list \<Rightarrow> state" where
  "run large dv ctx0 evs = foldl (step large dv) (initial ctx0) evs"

subsection \<open>What the specification says\<close>

text \<open>The trigger of the slash command in the specification's words: the character right
  before the cursor is a slash, and the one before that is absent, a space or a newline.\<close>

definition spec_slash_trigger :: "string \<Rightarrow> bool" where
  "spec_slash_trigger before =
     (before \<noteq> [] \<and> last before = CHR ''/''
      \<and> (butlast before = [] \<or> last (butlast before) = CHR '' ''
           \<or> last (butlast before) = CHR 0x0A))"

text \<open>Concrete inputs for the examples: a mounted component that is not responding, with
  session \<open>s1\<close>, and one small file.\<close>

definition ctx_idle :: chat_context where
  "ctx_idle = \<lparr>isResponding = False, sessionId = Some ''s1'', location_state = None,
                location_pathname = ''/chat'', has_scrollToBottom = True\<rparr>"

definition ctx_busy :: chat_context where
  "ctx_busy = ctx_idle\<lparr>isResponding := True\<rparr>"

definition file_a :: File where
  "file_a = \<lparr>name = ''a.txt'', size_f = 3, lastModified = 1700000000000,
              type_f = ''text/plain'', content = ''abc''\<rparr>"

definition file_a2 :: File where
  "file_a2 = file_a\<lparr>content := ''xyz''\<rparr>"

text \<open>The triple the Selected File Set is meant to be keyed by.\<close>

definition fileKey :: "File \<Rightarrow> string \<times> nat \<times> nat" where
  "fileKey f = (name f, size_f f, lastModified f)"

definition large_paste :: ClipboardData where
  "large_paste = \<lparr>files = [], text_data = ''0123456789''\<rparr>"

definition small_paste :: ClipboardData where
  "small_paste = \<lparr>files = [], text_data = ''abc''\<rparr>"

definition mixed_paste :: ClipboardData where
  "mixed_paste = \<lparr>files = [file_a], text_data = ''0123456789''\<rparr>"

definition detect_none :: "string \<Rightarrow> string list" where
  "detect_none p = []"

definition env_error :: save_env where
  "env_error = \<lparr>fileNow = 1700000000000, idNow = 1700000000001, idRandom = ''k3x9q2a'',
                 stampNow = 1700000000002, uploadResult = UploadError ''quota exceeded'',
                 refetchResult = RefetchDone\<rparr>"

definition s_draft :: state where
  "s_draft = (initial ctx_idle)\<lparr>selectedFiles := [file_a], inputValue := '' hi '',
                                 contextText := Some ''why'', showPromptsCommand := True\<rparr>"

definition s_busy :: state where
  "s_busy = (initial ctx_busy)\<lparr>selectedFiles := [file_a], inputValue := ''   ''\<rparr>"

definition followUp_explain :: followUp where
  "followUp_explain = \<lparr>text_f = ''E = mc^2'', prompt = Some ''Explain this'', autoSubmit = True\<rparr>"

section \<open>Properties\<close>

subsection \<open>Auxiliary facts\<close>

lemma ctx_idle_simps:
  "isResponding ctx_idle = False" "sessionId ctx_idle = Some ''s1''"
  "location_state ctx_idle = None" "has_scrollToBottom ctx_idle = True"
  by (simp_all add: ctx_idle_def)

lemma ctx_busy_simps:
  "isResponding ctx_busy = True" "sessionId ctx_busy = Some ''s1''"
  "location_state ctx_busy = None" "has_scrollToBottom ctx_busy = True"
  by (simp_all add: ctx_busy_def ctx_idle_def)

lemma trim_hi: "trim '' hi '' = ''hi''"
  by (simp add: trim_def isWhiteSpace_def)

lemma trim_blank: "trim ''   '' = []"
  by (simp add: trim_def isWhiteSpace_def)

lemma addFiles_eq:
  "addFiles s fs = s\<lparr>selectedFiles := selectedFiles s @ newFiles (selectedFiles s) fs\<rparr>"
  by (simp add: addFiles_def Let_def)

lemma substring_0: "substring t 0 n = take n t"
  by (simp add: substring_def Let_def min_def)

lemma substring_from_drop: "substring_from t n = drop n t"
  by (simp add: substring_from_def min_def)

subsection \<open>Submission\<close>

text \<open>
  Claim C1. In every state of the controller, \<open>onSubmit\<close> calls the chat context's submit
  operation exactly when the controller is not responding and the trimmed draft is non-empty
  or a file is selected. When this guard is false, \<open>onSubmit\<close> makes no call on the backend
  (it only cancels the event's default action) and returns the local state as it was.
\<close>

theorem onSubmit_guard:
  "((\<exists>fs m. HandleSubmit fs m \<in> set (snd (onSubmit ctx s out)))
      = (\<not> isResponding ctx \<and> (trim (inputValue s) \<noteq> [] \<or> selectedFiles s \<noteq> [])))
   \<and> (\<not> (\<not> isResponding ctx \<and> (trim (inputValue s) \<noteq> [] \<or> selectedFiles s \<noteq> []))
        \<longrightarrow> onSubmit ctx s out = (s, [PreventDefault]))"
  by (auto simp: onSubmit_def isSubmittingEnabled_def truthy_def scrollToBottom_def Let_def
           split: outcome.splits option.splits)

theorem onSubmit_guard_witness:
  "\<not> (\<not> isResponding ctx_busy \<and> (trim (inputValue s_draft) \<noteq> [] \<or> selectedFiles s_draft \<noteq> []))
   \<and> onSubmit ctx_busy s_draft Resolved = (s_draft, [PreventDefault])
   \<and> \<not> isResponding ctx_idle \<and> trim (inputValue s_draft) \<noteq> [] \<and> selectedFiles s_draft \<noteq> []
   \<and> (\<exists>fs m. HandleSubmit fs m \<in> set (snd (onSubmit ctx_idle s_draft Resolved)))"
  using onSubmit_guard [of ctx_busy s_draft Resolved] onSubmit_guard [of ctx_idle s_draft Resolved]
  by (simp add: ctx_busy_simps ctx_idle_simps s_draft_def trim_hi)

text \<open>
  Claim C2. After a successful \<open>onSubmit\<close>, that is, the guard holds and the submit of the chat
  context completes, the draft is the empty string, the Selected File Set is empty, the list
  of pasted-artifact badges is empty and the context string is null, whatever they were.
\<close>

theorem onSubmit_clears:
  "\<not> isResponding ctx \<and> (trim (inputValue s) \<noteq> [] \<or> selectedFiles s \<noteq> [])
   \<longrightarrow> inputValue (fst (onSubmit ctx s Resolved)) = []
     \<and> selectedFiles (fst (onSubmit ctx s Resolved)) = []
     \<and> pastedArtifactItems (fst (onSubmit ctx s Resolved)) = []
     \<and> contextText (fst (onSubmit ctx s Resolved)) = None"
  by (simp add: onSubmit_def isSubmittingEnabled_def truthy_def Let_def)

theorem onSubmit_clears_witness:
  "\<not> isResponding ctx_idle \<and> trim (inputValue s_draft) \<noteq> []
   \<and> selectedFiles s_draft = [file_a] \<and> contextText s_draft = Some ''why''
   \<and> inputValue (fst (onSubmit ctx_idle s_draft Resolved)) = []
   \<and> selectedFiles (fst (onSubmit ctx_idle s_draft Resolved)) = []
   \<and> pastedArtifactItems (fst (onSubmit ctx_idle s_draft Resolved)) = []
   \<and> contextText (fst (onSubmit ctx_idle s_draft Resolved)) = None"
  using onSubmit_clears [of ctx_idle s_draft]
  by (simp add: ctx_idle_simps s_draft_def trim_hi)

subsection \<open>The Selected File Set\<close>

lemma sameFile_key: "sameFile e f = (fileKey e = fileKey f)"
  by (auto simp: sameFile_def fileKey_def)

lemma newFiles_keys:
  "newFiles sel fs = filter (\<lambda>f. fileKey f \<notin> fileKey ` set sel) fs"
  unfolding newFiles_def
  by (rule filter_cong) (auto simp: list_ex_iff sameFile_key image_iff)

text \<open>What the filter does achieve: a file whose triple is already selected is never added,
  and a selection without duplicates stays so when the arriving batch has none either.\<close>

lemma addFiles_skips_selected:
  "f \<in> set (newFiles (selectedFiles s) fs) \<Longrightarrow> fileKey f \<notin> fileKey ` set (selectedFiles s)"
  by (simp add: newFiles_keys)

lemma addFiles_distinct:
  assumes "distinct (map fileKey (selectedFiles s))" and "distinct (map fileKey fs)"
  shows "distinct (map fileKey (selectedFiles (addFiles s fs)))"
  using assms by (auto simp: addFiles_eq newFiles_keys distinct_map_filter)

text \<open>
  Claim C3. Of two files with the same name, size and last-modified time, at most one is ever
  in the Selected File Set, through the picker, a paste or a drop, in any order or batching.
  The filter compares an arriving file with the files already selected only, not with the
  other files of its batch: two different files with the same triple, arriving in one batch
  on an empty selection, are both selected, on each of the three paths.
\<close>

theorem duplicate_within_one_batch:
  "file_a \<noteq> file_a2 \<and> sameFile file_a file_a2
   \<and> selectedFiles (handleFilesDropped ctx_idle (initial ctx_idle) [file_a, file_a2]) = [file_a, file_a2]
   \<and> selectedFiles (fst (handleFileChange (initial ctx_idle) (Some [file_a, file_a2]))) = [file_a, file_a2]
   \<and> selectedFiles (fst (handlePaste (isLargeText 2000) ctx_idle (initial ctx_idle)
         (Some \<lparr>files = [file_a, file_a2], text_data = []\<rparr>))) = [file_a, file_a2]"
  by (simp add: handleFilesDropped_def handleFileChange_def handlePaste_def addFiles_eq
        newFiles_def sameFile_def initial_def ctx_idle_def file_a_def file_a2_def)

subsection \<open>Paste\<close>

text \<open>
  Claim C4, as stated: on every paste event while not responding, clipboard text at or above
  the large-text threshold becomes the pending paste content and opens the artifact dialog.
  It fails for a paste that also carries a file: the file branch returns first, and the text
  is neither stored nor the dialog opened.
\<close>

theorem paste_text_with_files_counterexample:
  "\<not> isResponding ctx_idle \<and> isLargeText 5 (text_data mixed_paste)
   \<and> \<not> (pendingPasteContent (fst (handlePaste (isLargeText 5) ctx_idle (initial ctx_idle) (Some mixed_paste)))
           = Some (text_data mixed_paste)
         \<and> showArtifactForm (fst (handlePaste (isLargeText 5) ctx_idle (initial ctx_idle) (Some mixed_paste))))"
  by (simp add: handlePaste_def addFiles_eq initial_def ctx_idle_simps isLargeText_def mixed_paste_def)

text \<open>
  Claim C4, amended. While the controller is responding a paste event is ignored entirely.
  Otherwise, for an event whose clipboard carries no files: if its text is non-empty and
  classified as large, the default insertion is suppressed, the text becomes the pending paste
  content and the artifact dialog opens; if not, nothing is suppressed and no state changes, so
  the browser inserts the text. In no case does the handler write the draft.
\<close>

theorem handlePaste_text:
  "(isResponding ctx \<longrightarrow> handlePaste large ctx s cd = (s, []))
   \<and> (\<not> isResponding ctx \<and> cd = Some c \<and> files c = [] \<and> text_data c \<noteq> [] \<and> large (text_data c)
        \<longrightarrow> handlePaste large ctx s cd
              = (s\<lparr>pendingPasteContent := Some (text_data c), showArtifactForm := True\<rparr>, [PreventDefault]))
   \<and> (\<not> isResponding ctx \<and> cd = Some c \<and> files c = [] \<and> \<not> (text_data c \<noteq> [] \<and> large (text_data c))
        \<longrightarrow> handlePaste large ctx s cd = (s, []))
   \<and> inputValue (fst (handlePaste large ctx s cd)) = inputValue s"
  by (auto simp: handlePaste_def addFiles_eq truthy_def Let_def split: option.splits)

theorem handlePaste_text_witness:
  "isResponding ctx_busy \<and> \<not> isResponding ctx_idle
   \<and> files large_paste = [] \<and> text_data large_paste \<noteq> [] \<and> isLargeText 5 (text_data large_paste)
   \<and> files small_paste = [] \<and> \<not> isLargeText 5 (text_data small_paste)
   \<and> handlePaste (isLargeText 5) ctx_busy (initial ctx_busy) (Some large_paste) = (initial ctx_busy, [])
   \<and> handlePaste (isLargeText 5) ctx_idle (initial ctx_idle) (Some large_paste)
       = ((initial ctx_idle)\<lparr>pendingPasteContent := Some ''0123456789'', showArtifactForm := True\<rparr>,
          [PreventDefault])
   \<and> handlePaste (isLargeText 5) ctx_idle (initial ctx_idle) (Some small_paste) = (initial ctx_idle, [])"
  using handlePaste_text [of ctx_busy "isLargeText 5" "initial ctx_busy" "Some large_paste" large_paste]
        handlePaste_text [of ctx_idle "isLargeText 5" "initial ctx_idle" "Some large_paste" large_paste]
        handlePaste_text [of ctx_idle "isLargeText 5" "initial ctx_idle" "Some small_paste" small_paste]
  by (simp add: ctx_busy_simps ctx_idle_simps isLargeText_def large_paste_def small_paste_def)

text \<open>
  Claim C9. A paste event, while not responding, that carries at least one clipboard file only
  merges the files into the Selected File Set and returns: the pending paste content and the
  artifact dialog stay as they were, and the result does not depend on the clipboard text or
  on how the classifier would judge it.
\<close>

theorem handlePaste_files:
  "\<not> isResponding ctx \<and> files c \<noteq> []
   \<longrightarrow> handlePaste large ctx s (Some c)
         = (s\<lparr>selectedFiles := selectedFiles s @ newFiles (selectedFiles s) (files c)\<rparr>, [PreventDefault])
     \<and> pendingPasteContent (fst (handlePaste large ctx s (Some c))) = pendingPasteContent s
     \<and> showArtifactForm (fst (handlePaste large ctx s (Some c))) = showArtifactForm s
     \<and> handlePaste large' ctx s (Some (c\<lparr>text_data := t'\<rparr>)) = handlePaste large ctx s (Some c)"
  by (simp add: handlePaste_def addFiles_eq)

theorem handlePaste_files_witness:
  "\<not> isResponding ctx_idle \<and> files mixed_paste \<noteq> [] \<and> isLargeText 5 (text_data mixed_paste)
   \<and> handlePaste (isLargeText 5) ctx_idle (initial ctx_idle) (Some mixed_paste)
       = ((initial ctx_idle)\<lparr>selectedFiles := [file_a]\<rparr>, [PreventDefault])
   \<and> pendingPasteContent (fst (handlePaste (isLargeText 5) ctx_idle (initial ctx_idle) (Some mixed_paste)))
       = None"
  using handlePaste_files [of ctx_idle mixed_paste "isLargeText 5" "initial ctx_idle" "isLargeText 5"
          "text_data mixed_paste"]
  by (simp add: ctx_idle_simps isLargeText_def newFiles_def initial_def mixed_paste_def)

subsection \<open>Saving pasted text as an artifact\<close>

text \<open>One run of the save handler on a non-empty pending payload.\<close>

lemma handleSaveAsArtifact_run:
  assumes "pendingPasteContent s = Some c" and "c \<noteq> []"
  shows "pendingPasteContent (fst (handleSaveAsArtifact ctx env s title fileType description)) = None"
    and "\<not> showArtifactForm (fst (handleSaveAsArtifact ctx env s title fileType description))"
    and "length (errorNotifications (snd (handleSaveAsArtifact ctx env s title fileType description)))
           = (if failing env then 1 else 0)"
  using assms
  by (auto simp: handleSaveAsArtifact_def truthy_def Let_def failing_def errorNotifications_def
        catchError_def split: upload_result.splits refetch_result.splits option.splits)

text \<open>The pending payload is never the empty string: the paste handler stores non-empty text
  only, and every other handler leaves the cell alone or sets it to null.\<close>

lemma handleSaveAsArtifact_pending:
  "(pendingPasteContent (fst (handleSaveAsArtifact ctx env s title fileType description)) \<noteq> Some [])
     = (pendingPasteContent s \<noteq> Some [])"
  by (auto simp: handleSaveAsArtifact_def truthy_def Let_def
        split: upload_result.splits refetch_result.splits option.splits prod.splits)

lemma sessionEffect_run_pending:
  "pendingPasteContent (fst (sessionEffect_run dv ctx s)) = pendingPasteContent s"
  by (simp add: sessionEffect_run_def Let_def split: option.splits)

lemma sessionEffect_pending:
  "pendingPasteContent (fst (sessionEffect dv ctx s)) = pendingPasteContent s"
  by (simp add: sessionEffect_def Let_def sessionEffect_run_pending split: prod.splits)
     (metis fst_conv sessionEffect_run_pending)

lemma fire_pending: "pendingPasteContent (fst (fire ctx s t out)) = pendingPasteContent s"
  by (cases t; cases out) (simp_all add: Let_def)

lemma step_pending:
  "pendingPasteContent s \<noteq> Some [] \<Longrightarrow> pendingPasteContent (step large dv s e) \<noteq> Some []"
proof (cases e)
  case (Pair ctx ev)
  assume inv: "pendingPasteContent s \<noteq> Some []"
  show ?thesis
  proof (cases ev)
    case (SaveAsArtifact env title fileType description)
    with Pair inv show ?thesis by (simp add: handleSaveAsArtifact_pending)
  next
    case SessionChange
    with Pair inv show ?thesis by (simp add: sessionEffect_pending)
  next
    case (Fire t out)
    with Pair inv show ?thesis by (simp add: fire_pending)
  next
    case (Paste cd)
    with Pair inv show ?thesis
      by (auto simp: handlePaste_def addFiles_eq truthy_def Let_def split: option.splits if_splits)
  qed (use Pair inv in \<open>auto simp: handleFileChange_def handleFilesDropped_def addFiles_eq
         handleRemoveFile_def handleCancelArtifactForm_def handleRemovePastedArtifact_def
         onSubmit_def handleInputChange_def handlePromptSelect_def handleChatCommand_def
         handleVariableSubmit_def handleTranscription_def handleFollowUp_def Let_def
         split: option.splits outcome.splits if_splits\<close>)
qed

lemma run_pending: "pendingPasteContent (run large dv ctx0 evs) \<noteq> Some []"
proof -
  have "pendingPasteContent s \<noteq> Some [] \<Longrightarrow> pendingPasteContent (foldl (step large dv) s evs) \<noteq> Some []"
    for s
    by (induction evs arbitrary: s) (simp_all add: step_pending)
  then show ?thesis by (simp add: run_def initial_def)
qed

lemma run_large_paste:
  "run (isLargeText 5) detect_none ctx_idle [(ctx_idle, Paste (Some large_paste))]
     = (initial ctx_idle)\<lparr>pendingPasteContent := Some ''0123456789'', showArtifactForm := True\<rparr>"
  by (simp add: run_def handlePaste_def ctx_idle_simps large_paste_def isLargeText_def truthy_def)

text \<open>
  Claim C5. Whenever the save handler runs with a non-null pending paste payload, in a state
  the controller has reached from its mount, then on every exit path (the upload succeeds,
  returns an error-shaped or a falsy result, or something throws) the pending paste content
  is null and the artifact dialog is closed afterwards, and a failing run emits exactly one
  error notification.
\<close>

theorem handleSaveAsArtifact_releases:
  "s = run large dv ctx0 evs \<and> pendingPasteContent s \<noteq> None
   \<longrightarrow> pendingPasteContent (fst (handleSaveAsArtifact ctx env s title fileType description)) = None
     \<and> \<not> showArtifactForm (fst (handleSaveAsArtifact ctx env s title fileType description))
     \<and> (failing env \<longrightarrow>
          length (errorNotifications (snd (handleSaveAsArtifact ctx env s title fileType description))) = 1)"
proof (intro impI)
  assume a: "s = run large dv ctx0 evs \<and> pendingPasteContent s \<noteq> None"
  then obtain c where c: "pendingPasteContent s = Some c" by auto
  with a run_pending [of large dv ctx0 evs] have "c \<noteq> []" by auto
  with c handleSaveAsArtifact_run [of s c ctx env title fileType description] show
    "pendingPasteContent (fst (handleSaveAsArtifact ctx env s title fileType description)) = None
     \<and> \<not> showArtifactForm (fst (handleSaveAsArtifact ctx env s title fileType description))
     \<and> (failing env \<longrightarrow>
          length (errorNotifications (snd (handleSaveAsArtifact ctx env s title fileType description))) = 1)"
    by simp
qed

theorem handleSaveAsArtifact_releases_witness:
  "pendingPasteContent (run (isLargeText 5) detect_none ctx_idle [(ctx_idle, Paste (Some large_paste))])
     = Some ''0123456789''
   \<and> showArtifactForm (run (isLargeText 5) detect_none ctx_idle [(ctx_idle, Paste (Some large_paste))])
   \<and> failing env_error
   \<and> pendingPasteContent (fst (handleSaveAsArtifact ctx_idle env_error
        (run (isLargeText 5) detect_none ctx_idle [(ctx_idle, Paste (Some large_paste))])
        ''notes.txt'' ''auto'' None)) = None
   \<and> \<not> showArtifactForm (fst (handleSaveAsArtifact ctx_idle env_error
        (run (isLargeText 5) detect_none ctx_idle [(ctx_idle, Paste (Some large_paste))])
        ''notes.txt'' ''auto'' None))
   \<and> length (errorNotifications (snd (handleSaveAsArtifact ctx_idle env_error
        (run (isLargeText 5) detect_none ctx_idle [(ctx_idle, Paste (Some large_paste))])
        ''notes.txt'' ''auto'' None))) = 1"
  using handleSaveAsArtifact_releases
          [of "run (isLargeText 5) detect_none ctx_idle [(ctx_idle, Paste (Some large_paste))]"
              "isLargeText 5" detect_none ctx_idle "[(ctx_idle, Paste (Some large_paste))]"
              ctx_idle env_error "''notes.txt''" "''auto''" None]
  by (simp add: run_large_paste failing_def env_error_def)

subsection \<open>The reaction to a change of session\<close>


lemma sessionEffect_run_keep:
  "pendingPrompt ctx = None \<Longrightarrow> \<not> truthy_opt (prevSessionIdRef s)
   \<Longrightarrow> sessionEffect_run dv ctx s = (s\<lparr>prevSessionIdRef := sessionId ctx, contextText := None\<rparr>, [])"
  by (simp add: sessionEffect_run_def)



text \<open>A session id that is the empty string counts as no session: leaving it resets nothing.\<close>

lemma sessionEffect_empty_id:
  "pendingPrompt ctx = None \<Longrightarrow> prevSessionIdRef s = Some []
   \<Longrightarrow> fst (sessionEffect dv ctx s) = s\<lparr>prevSessionIdRef := sessionId ctx, contextText := None\<rparr>"
  by (simp add: sessionEffect_def sessionEffect_run_keep truthy_def)



subsection \<open>The slash command\<close>

lemma charFromEnd_1: "charFromEnd t (Suc 0) = (if t = [] then None else Some (last t))"
  by (cases t rule: rev_cases) (simp_all add: charFromEnd_def nth_append)

lemma charFromEnd_2:
  "charFromEnd t 2 = (if butlast t = [] then None else Some (last (butlast t)))"
proof (cases t rule: rev_cases)
  case Nil
  then show ?thesis by (simp add: charFromEnd_def)
next
  case (snoc ys y)
  then show ?thesis
    by (cases ys rule: rev_cases) (simp_all add: charFromEnd_def nth_append butlast_append)
qed

text \<open>The test of the handler is the trigger of the specification.\<close>

lemma trigger_refines:
  "(charFromEnd t (Suc 0) = Some CHR ''/''
     \<and> (charFromEnd t 2 = None \<or> charFromEnd t 2 = Some CHR '' '' \<or> charFromEnd t 2 = Some CHR 0x0A))
   = spec_slash_trigger t"
  by (auto simp: charFromEnd_1 charFromEnd_2 spec_slash_trigger_def)

text \<open>
  Claim C7. After every text change the draft is the new value, and the slash-command popover
  is open if the character right before the cursor is a slash and the one before that is
  absent, a space or a newline; otherwise, if the popover was open and the text before the
  cursor holds no slash, it is closed; in every other case its visibility is unchanged.
\<close>

theorem handleInputChange_popover:
  "inputValue (handleInputChange s v cur) = v
   \<and> showPromptsCommand (handleInputChange s v cur)
       = (if spec_slash_trigger (take cur v) then True
          else if showPromptsCommand s \<and> CHR ''/'' \<notin> set (take cur v) then False
          else showPromptsCommand s)"
  using trigger_refines [of "take cur v"]
  by (auto simp: handleInputChange_def Let_def substring_0 includes_c_def)

theorem handleInputChange_popover_witness:
  "showPromptsCommand (handleInputChange (initial ctx_idle) ''/'' 1)
   \<and> showPromptsCommand (handleInputChange (initial ctx_idle) ''hi /'' 4)
   \<and> showPromptsCommand (handleInputChange (initial ctx_idle) [CHR ''a'', CHR 0x0A, CHR ''/''] 3)
   \<and> \<not> showPromptsCommand (handleInputChange (initial ctx_idle) ''a/'' 2)
   \<and> \<not> showPromptsCommand (handleInputChange s_draft ''hi'' 2)
   \<and> showPromptsCommand (handleInputChange s_draft ''/ab'' 3)"
  using handleInputChange_popover [of "initial ctx_idle" "''/''" 1]
        handleInputChange_popover [of "initial ctx_idle" "''hi /''" 4]
        handleInputChange_popover [of "initial ctx_idle" "[CHR ''a'', CHR 0x0A, CHR ''/'']" 3]
        handleInputChange_popover [of "initial ctx_idle" "''a/''" 2]
        handleInputChange_popover [of s_draft "''hi''" 2]
        handleInputChange_popover [of s_draft "''/ab''" 3]
  by (simp add: spec_slash_trigger_def initial_def s_draft_def)

lemma lastIndexOf_none: "c \<notin> set t \<Longrightarrow> lastIndexOf t c = -1"
  by (induction t) (auto simp: Let_def)

lemma lastIndexOf_last:
  "c \<notin> set tok \<Longrightarrow> lastIndexOf (pre @ c # tok) c = int (length pre)"
  by (induction pre) (auto simp: Let_def lastIndexOf_none)

lemma substring_to_last_slash:
  "tb = pre @ c # tok \<Longrightarrow> c \<notin> set tok \<Longrightarrow> substring_to tb (lastIndexOf tb c) = pre"
  by (simp add: lastIndexOf_last substring_to_def substring_0)

text \<open>With no slash before the cursor, \<open>lastIndexOf\<close> gives -1 and the whole text before the
  cursor is dropped.\<close>

lemma handlePromptSelect_no_slash:
  "CHR ''/'' \<notin> set (take cur (inputValue s))
   \<Longrightarrow> inputValue (fst (handlePromptSelect s (Some cur) p)) = p @ drop cur (inputValue s)"
  by (simp add: handlePromptSelect_def Let_def substring_0 substring_from_drop substring_to_def
        lastIndexOf_none)

text \<open>What the handler does achieve: when a slash precedes the cursor, the draft becomes the
  text before the last such slash, the prompt text and the text after the cursor, and the
  popover is closed. The draft \<open>hello /wor\<close> with the cursor at its end and the prompt text
  \<open>world!\<close> give the draft \<open>hello world!\<close>.\<close>

lemma handlePromptSelect_with_slash:
  assumes "take cur (inputValue s) = pre @ CHR ''/'' # tok" and "CHR ''/'' \<notin> set tok"
  shows "handlePromptSelect s (Some cur) p
          = (s\<lparr>inputValue := pre @ p @ drop cur (inputValue s), showPromptsCommand := False\<rparr>,
             [SetTimeout FocusChatInput 100])"
proof -
  from assms
  have "substring_to (take cur (inputValue s)) (lastIndexOf (take cur (inputValue s)) CHR ''/'') = pre"
    by (intro substring_to_last_slash [of _ pre _ tok]) simp_all
  then show ?thesis
    by (simp add: handlePromptSelect_def Let_def substring_0 substring_from_drop)
qed

lemma handlePromptSelect_hello:
  "handlePromptSelect (s_draft\<lparr>inputValue := ''hello /wor''\<rparr>) (Some 10) ''world!''
      = (s_draft\<lparr>inputValue := ''hello world!'', showPromptsCommand := False\<rparr>,
         [SetTimeout FocusChatInput 100])"
  using handlePromptSelect_with_slash [of 10 "s_draft\<lparr>inputValue := ''hello /wor''\<rparr>"
          "''hello ''" "''wor''" "''world!''"]
  by simp

text \<open>The popover is closed and the text after the cursor is kept at every draft and cursor.\<close>

lemma handlePromptSelect_always:
  "\<not> showPromptsCommand (fst (handlePromptSelect s sel p))
   \<and> (\<exists>front. inputValue (fst (handlePromptSelect s (Some cur) p))
                 = front @ p @ drop cur (inputValue s))"
  by (simp add: handlePromptSelect_def Let_def substring_from_drop)

text \<open>
  Claim C8. For every draft and cursor position, selecting a prompt sets the draft to the text
  before the last slash that precedes the cursor, followed by the prompt text, followed by the
  text after the cursor, and closes the popover. The handler's comment says it removes the
  slash trigger and inserts the prompt, but it does not handle the -1 of \<open>lastIndexOf\<close>: typing
  \<open>hello /\<close> opens the popover, and with the caret then moved to position 2, where no slash
  precedes it, selecting \<open>PROMPT\<close> gives the draft \<open>PROMPTllo /\<close>. The text before the caret is
  lost and the slash stays.
\<close>

theorem handlePromptSelect_without_slash:
  "showPromptsCommand (handleInputChange (initial ctx_idle) ''hello /'' 7)
   \<and> inputValue (handleInputChange (initial ctx_idle) ''hello /'' 7) = ''hello /''
   \<and> lastIndexOf (take 2 ''hello /'') CHR ''/'' = -1
   \<and> handlePromptSelect (handleInputChange (initial ctx_idle) ''hello /'' 7) (Some 2) ''PROMPT''
       = ((initial ctx_idle)\<lparr>inputValue := ''PROMPTllo /''\<rparr>, [SetTimeout FocusChatInput 100])"
  by (simp add: handleInputChange_def handlePromptSelect_def Let_def substring_0 substring_from_drop
        substring_to_def charFromEnd_def includes_c_def initial_def)

subsection \<open>The follow-up question\<close>

text \<open>
  Claim C10. A follow-up question with a prompt and the auto-submit flag schedules a callback
  that calls the chat context's submit with no attachments and the message made of the prompt,
  two newlines, \<open>Context:\<close> and the selected text in double quotes. The callback looks neither at
  the responding flag nor at the submit guard: it makes the call in every context and state.
  When the call completes it clears the draft and the context string, and it leaves the
  Selected File Set and the list of pasted-artifact badges as they are.
\<close>

theorem followUp_autoSubmit:
  "(prompt d = Some p \<and> p \<noteq> [] \<and> autoSubmit d
      \<longrightarrow> handleFollowUp s d
           = (s\<lparr>contextText := Some (text_f d), inputValue := p @ '' ''\<rparr>,
              [SetTimeout (AutoSubmit p (text_f d)) 50]))
   \<and> fire ctx s' (AutoSubmit p t) Resolved
       = (s'\<lparr>contextText := None, inputValue := []\<rparr>,
          HandleSubmit [] (p @ [CHR 0x0A, CHR 0x0A] @ ''Context: '' @ [CHR 0x22] @ t @ [CHR 0x22])
            # scrollToBottom ctx)
   \<and> hd (snd (fire ctx s' (AutoSubmit p t) out))
       = HandleSubmit [] (p @ [CHR 0x0A, CHR 0x0A] @ ''Context: '' @ [CHR 0x22] @ t @ [CHR 0x22])
   \<and> selectedFiles (fst (fire ctx s' (AutoSubmit p t) out)) = selectedFiles s'
   \<and> pastedArtifactItems (fst (fire ctx s' (AutoSubmit p t) out)) = pastedArtifactItems s'"
  by (cases out) (simp_all add: handleFollowUp_def truthy_def Let_def composeMessage_def)

theorem followUp_autoSubmit_witness:
  "prompt followUp_explain = Some ''Explain this'' \<and> ''Explain this'' \<noteq> [] \<and> autoSubmit followUp_explain
   \<and> isResponding ctx_busy \<and> \<not> isSubmittingEnabled ctx_busy s_busy
   \<and> snd (handleFollowUp s_busy followUp_explain) = [SetTimeout (AutoSubmit ''Explain this'' ''E = mc^2'') 50]
   \<and> fire ctx_busy s_busy (AutoSubmit ''Explain this'' ''E = mc^2'') Resolved
       = (s_busy\<lparr>contextText := None, inputValue := []\<rparr>,
          [HandleSubmit []
             (''Explain this'' @ [CHR 0x0A, CHR 0x0A] @ ''Context: '' @ [CHR 0x22] @ ''E = mc^2'' @ [CHR 0x22]),
           ScrollToBottom])
   \<and> selectedFiles (fst (fire ctx_busy s_busy (AutoSubmit ''Explain this'' ''E = mc^2'') Resolved)) = [file_a]"
  using followUp_autoSubmit [of followUp_explain "''Explain this''" s_busy ctx_busy s_busy "''E = mc^2''" Resolved]
  by (simp add: followUp_explain_def s_busy_def ctx_busy_simps isSubmittingEnabled_def
        scrollToBottom_def)

end
